theory Spec2Isabelle
  imports Complex_Main "HOL-Library.Char_ord" "HOL-Library.List_Lexorder"
begin

section \<open>JavaScript values used by the flight transformers\<close>

text \<open>
  Numbers that the code only ever produces as integers (segment counts, minutes, hours)
  are \<open>int\<close> or \<open>nat\<close>; a price is a finite number, a \<open>real\<close>. The value \<open>NaN\<close> is written out
  where the code can produce it from well-typed input (the minute difference of an
  invalid date): there a number is an \<open>int option\<close> and \<open>None\<close> is \<open>NaN\<close>.
  Strings are \<open>string\<close>; the labels handled here are ASCII.
\<close>

datatype js_error = TypeError | RangeError

text \<open>
  What reading a property of a plain object with string values can give: \<open>undefined\<close>,
  a string, or a member that every plain object inherits from \<open>Object.prototype\<close>
  (\<open>Member k\<close> is the inherited member named \<open>k\<close>: a function, or the prototype
  itself for \<open>__proto__\<close>).
\<close>

datatype js_value = Undefined | Str string | Member string

definition is_digit :: "char \<Rightarrow> bool" where
  "is_digit c = (c \<in> set ''0123456789'')"

text \<open>The class \<open>\s\<close> of a regular expression, on ASCII: space, tab, LF, VT, FF, CR.\<close>

definition is_space :: "char \<Rightarrow> bool" where
  "is_space c = (c \<in> set [CHR 0x20, CHR 0x09, CHR 0x0A, CHR 0x0B, CHR 0x0C, CHR 0x0D])"

definition digit_of_char :: "char \<Rightarrow> nat" where
  "digit_of_char c = of_char c - 48"

definition char_of_digit :: "nat \<Rightarrow> char" where
  "char_of_digit d = ''0123456789'' ! d"

text \<open>\<open>parseInt\<close> on a string of decimal digits (what the capture group \<open>(\d+)\<close> holds).\<close>

definition parseInt :: "string \<Rightarrow> nat" where
  "parseInt ds = foldl (\<lambda>acc c. 10 * acc + digit_of_char c) 0 ds"

text \<open>The string of a non-negative integer, as a template literal renders it.\<close>

fun show_nat :: "nat \<Rightarrow> string" where
  "show_nat n = (if n < 10 then [char_of_digit n]
                 else show_nat (n div 10) @ [char_of_digit (n mod 10)])"

declare show_nat.simps [simp del]

text \<open>The string of an integer; \<open>-0\<close> and \<open>0\<close> both render as \<open>0\<close>.\<close>

definition show_int :: "int \<Rightarrow> string" where
  "show_int i = (if i < 0 then CHR ''-'' # show_nat (nat (- i)) else show_nat (nat i))"

text \<open>The remainder operator \<open>%\<close> on integers: the result has the sign of the dividend.\<close>

definition js_rem :: "int \<Rightarrow> int \<Rightarrow> int" where
  "js_rem a b = sgn a * (\<bar>a\<bar> mod \<bar>b\<bar>)"

section \<open>Duration labels\<close>

text \<open>
  \<open>duration.match(/PT(?:(\d+)H)?(?:(\d+)M)?/)\<close>. The expression is not anchored: it
  matches at the leftmost \<open>PT\<close>, and there it always succeeds, since both groups are
  optional. \<open>find_PT\<close> returns the text after the leftmost \<open>PT\<close>.
\<close>

fun find_PT :: "string \<Rightarrow> string option" where
  "find_PT (a # b # cs) =
     (if a = CHR ''P'' \<and> b = CHR ''T'' then Some cs else find_PT (b # cs))"
| "find_PT _ = None"

text \<open>
  An optional group \<open>(?:(\d+)X)?\<close> at the head of a string: the digits captured (if the
  group matches) and the text after the group. The digits are taken greedily; giving
  some back cannot help, since a digit is not the letter \<open>X\<close>.
\<close>

definition opt_group :: "char \<Rightarrow> string \<Rightarrow> string option \<times> string" where
  "opt_group x s =
     (let ds = takeWhile is_digit s; r = dropWhile is_digit s
      in if ds \<noteq> [] \<and> r \<noteq> [] \<and> hd r = x then (Some ds, tl r) else (None, s))"

definition parseDuration :: "string \<Rightarrow> string" where
  "parseDuration duration =
     (case find_PT duration of
        None \<Rightarrow> duration
      | Some r \<Rightarrow>
          (let (m1, r1) = opt_group CHR ''H'' r;
               (m2, r2) = opt_group CHR ''M'' r1;
               hours = (case m1 of Some ds \<Rightarrow> parseInt ds | None \<Rightarrow> 0);
               minutes = (case m2 of Some ds \<Rightarrow> parseInt ds | None \<Rightarrow> 0)
           in if hours \<noteq> 0 \<and> minutes \<noteq> 0 then show_nat hours @ ''h '' @ show_nat minutes @ ''m''
              else if hours \<noteq> 0 then show_nat hours @ ''h''
              else if minutes \<noteq> 0 then show_nat minutes @ ''m''
              else duration))"

text \<open>
  \<open>duration.match(/(\d+)h\s*(\d+)?m?/)\<close>, not anchored either: \<open>find_hours\<close> looks for
  the leftmost position where a run of digits is followed by \<open>h\<close> and returns the digits
  and the text after the \<open>h\<close>. Everything after the \<open>h\<close> is optional.
\<close>

fun find_hours :: "string \<Rightarrow> (string \<times> string) option" where
  "find_hours [] = None"
| "find_hours (c # cs) =
     (if is_digit c then
        (case dropWhile is_digit (c # cs) of
           [] \<Rightarrow> find_hours cs
         | x # r \<Rightarrow> if x = CHR ''h'' then Some (takeWhile is_digit (c # cs), r)
                    else find_hours cs)
      else find_hours cs)"

definition parseDurationToMinutes :: "string \<Rightarrow> nat" where
  "parseDurationToMinutes duration =
     (case find_hours duration of
        None \<Rightarrow> 0
      | Some (hs, r) \<Rightarrow>
          (let hours = parseInt hs;
               ms = takeWhile is_digit (dropWhile is_space r);
               minutes = (if ms = [] then 0 else parseInt ms)
           in hours * 60 + minutes))"

section \<open>Raw provider records (types/flight.ts)\<close>

record Endpoint =
  iataCode :: string
  terminal :: "string option"
  at_iso :: string

text \<open>
  The interfaces \<open>FlightSegment\<close> and \<open>FlightCardData\<close> declare their display names
  (\<open>carrierName\<close>, \<open>airline\<close>) as strings. The normalizer fills them with the result
  of a property access, which can be a value that is not a string, so the records are
  polymorphic in the type of these names: \<open>js_value\<close> in what the normalizer returns,
  \<open>string\<close> in the provider's segments and in the flights the store holds (they reach
  the store as JSON).
\<close>

record 'n FlightSegment_of =
  seg_id :: string
  departure :: Endpoint
  arrival :: Endpoint
  carrierCode :: string
  carrierName :: 'n
  seg_number :: string
  aircraft_code :: string
  seg_duration :: string
  numberOfStops :: int

type_synonym FlightSegment = "string FlightSegment_of"

record FlightItinerary =
  itin_segments :: "FlightSegment list"
  itin_duration :: string

text \<open>Of \<open>FlightOffer\<close> only the fields the transformers read are kept.\<close>

record OfferPrice =
  price_currency :: string
  grandTotal :: string

record FlightOffer =
  offer_id :: string
  itineraries :: "FlightItinerary list"
  offer_price :: OfferPrice
  validatingAirlineCodes :: "string list"

text \<open>
  \<open>AmadeusFlightOffersResponse\<close>: \<open>carriers\<close> is \<open>response.dictionaries?.carriers\<close>,
  \<open>None\<close> when the response has no dictionaries or no carrier dictionary.
\<close>

record AmadeusFlightOffersResponse =
  data :: "FlightOffer list"
  carriers :: "(string \<rightharpoonup> string) option"

record 'n FlightCardData_of =
  flight_id :: string
  airline :: 'n
  airlineLogo :: string
  departureTime :: string
  arrivalTime :: string
  departureAirport :: string
  arrivalAirport :: string
  duration :: string
  stops :: int
  price :: real
  currency :: string
  segments :: "'n FlightSegment_of list"
  layovers :: "string list option"

type_synonym FlightCardData = "string FlightCardData_of"

section \<open>Library functions (date-fns, the JavaScript runtime)\<close>

text \<open>
  A \<open>Date\<close> is its time value in milliseconds since the epoch, or \<open>None\<close> for an
  invalid date. The parser of ISO timestamps, the rendering of a valid date as
  \<open>HH:mm\<close> in the local time zone and \<open>parseFloat\<close> are not code of this repository;
  the transformers take them as parameters.
\<close>

record runtime =
  parseISO :: "string \<Rightarrow> int option"
  format_HHmm :: "int \<Rightarrow> string"
  parseFloat :: "string \<Rightarrow> real"

text \<open>\<open>format(date, "HH:mm")\<close> throws a \<open>RangeError\<close> on an invalid date.\<close>

definition format_time :: "runtime \<Rightarrow> int option \<Rightarrow> js_error + string" where
  "format_time E d = (case d of None \<Rightarrow> Inl RangeError | Some t \<Rightarrow> Inr (format_HHmm E t))"

text \<open>
  \<open>differenceInMinutes(left, right)\<close>: the difference of the time values in minutes,
  rounded towards zero; \<open>NaN\<close> when a date is invalid.
\<close>

definition differenceInMinutes :: "int option \<Rightarrow> int option \<Rightarrow> int option" where
  "differenceInMinutes l r =
     (case l of None \<Rightarrow> None
      | Some a \<Rightarrow> (case r of None \<Rightarrow> None
                   | Some b \<Rightarrow> Some (sgn (a - b) * (\<bar>a - b\<bar> div 60000))))"

section \<open>Constants (lib/constants.ts)\<close>

text \<open>
  A plain object with string values is given by its own properties, a map from keys to
  strings. \<open>AIRLINE_NAMES\<close> is the own properties of the object literal; what
  \<open>AIRLINE_NAMES[code]\<close> evaluates to is \<open>get_property AIRLINE_NAMES code\<close> below,
  which goes on to \<open>Object.prototype\<close> when the object has no own property \<open>code\<close>.
\<close>

definition AIRLINE_NAMES :: "string \<rightharpoonup> string" where
  "AIRLINE_NAMES = map_of
     [(''AA'', ''American Airlines''), (''DL'', ''Delta Air Lines''),
      (''UA'', ''United Airlines''), (''BA'', ''British Airways''),
      (''LH'', ''Lufthansa''), (''AF'', ''Air France''), (''KL'', ''KLM''),
      (''EK'', ''Emirates''), (''QR'', ''Qatar Airways''),
      (''SQ'', ''Singapore Airlines''), (''CX'', ''Cathay Pacific''),
      (''QF'', ''Qantas''), (''AC'', ''Air Canada''), (''NH'', ''ANA''),
      (''JL'', ''Japan Airlines''), (''TK'', ''Turkish Airlines''),
      (''EY'', ''Etihad Airways''), (''SV'', ''Saudi Arabian Airlines''),
      (''WN'', ''Southwest Airlines''), (''B6'', ''JetBlue''),
      (''AS'', ''Alaska Airlines''), (''F9'', ''Frontier Airlines''),
      (''NK'', ''Spirit Airlines'')]"

definition AIRLINE_LOGO_URL :: "string \<Rightarrow> string" where
  "AIRLINE_LOGO_URL code = ''https://images.kiwi.com/airlines/64/'' @ code @ ''.png''"

section \<open>The offer normalizer (lib/flightTransformers.ts)\<close>

definition calculateStops :: "FlightSegment list \<Rightarrow> int" where
  "calculateStops segs = max 0 (int (length segs) - 1)"

text \<open>
  The operand of \<open>||\<close>: a missing entry (\<open>undefined\<close>) and the empty string are both
  falsy, and \<open>||\<close> then goes on to its right operand.
\<close>

definition truthy :: "string option \<Rightarrow> string option" where
  "truthy v = (case v of None \<Rightarrow> None | Some s \<Rightarrow> if s = [] then None else Some s)"

text \<open>
  The names of the members of \<open>Object.prototype\<close>. A plain object (an object literal,
  an object read from JSON) inherits them, and \<open>obj[key]\<close> finds them when \<open>obj\<close> has
  no own property \<open>key\<close>.
\<close>

definition Object_prototype_members :: "string list" where
  "Object_prototype_members =
     [''constructor'', ''__defineGetter__'', ''__defineSetter__'', ''hasOwnProperty'',
      ''__lookupGetter__'', ''__lookupSetter__'', ''isPrototypeOf'',
      ''propertyIsEnumerable'', ''toString'', ''valueOf'', ''__proto__'',
      ''toLocaleString'']"

text \<open>\<open>obj[key]\<close> on a plain object: the own property first, then the prototype.\<close>

definition get_property :: "(string \<rightharpoonup> string) \<Rightarrow> string \<Rightarrow> js_value" where
  "get_property obj key =
     (case obj key of
        Some v \<Rightarrow> Str v
      | None \<Rightarrow> if key \<in> set Object_prototype_members then Member key else Undefined)"

text \<open>Truthiness: \<open>undefined\<close> and the empty string are falsy, functions and objects are not.\<close>

fun truthy_value :: "js_value \<Rightarrow> bool" where
  "truthy_value Undefined = False"
| "truthy_value (Str s) = (s \<noteq> [])"
| "truthy_value (Member k) = True"

text \<open>
  \<open>dictionaries?.[carrierCode] || AIRLINE_NAMES[carrierCode] || carrierCode\<close>: the
  first truthy operand, or the last one.
\<close>

definition getAirlineName :: "string \<Rightarrow> (string \<rightharpoonup> string) option \<Rightarrow> js_value" where
  "getAirlineName code dictionaries =
     (let fromDictionary =
            (case dictionaries of None \<Rightarrow> Undefined | Some d \<Rightarrow> get_property d code)
      in if truthy_value fromDictionary then fromDictionary
         else (let fromTable = get_property AIRLINE_NAMES code
               in if truthy_value fromTable then fromTable else Str code))"

text \<open>The spread \<open>{ ...segment, carrierName: name }\<close>.\<close>

definition with_carrierName :: "'a FlightSegment_of \<Rightarrow> 'b \<Rightarrow> 'b FlightSegment_of" where
  "with_carrierName segment name =
     \<lparr> seg_id = seg_id segment, departure = departure segment, arrival = arrival segment,
       carrierCode = carrierCode segment, carrierName = name,
       seg_number = seg_number segment, aircraft_code = aircraft_code segment,
       seg_duration = seg_duration segment, numberOfStops = numberOfStops segment \<rparr>"

text \<open>The text of one layover, from the minute difference (\<open>None\<close> is \<open>NaN\<close>).\<close>

definition layoverText :: "int option \<Rightarrow> string" where
  "layoverText layoverMinutes =
     (case layoverMinutes of
        None \<Rightarrow> ''NaNm''
      | Some m \<Rightarrow>
          (let layoverHours = m div 60; layoverMins = js_rem m 60
           in if layoverHours > 0 then show_int layoverHours @ ''h '' @ show_int layoverMins @ ''m''
              else show_int layoverMins @ ''m''))"

definition layoverMinutes :: "runtime \<Rightarrow> FlightSegment \<Rightarrow> FlightSegment \<Rightarrow> int option" where
  "layoverMinutes E s s' =
     differenceInMinutes (parseISO E (at_iso (departure s'))) (parseISO E (at_iso (arrival s)))"

fun getLayovers :: "runtime \<Rightarrow> FlightSegment list \<Rightarrow> string list" where
  "getLayovers E (s # s' # rest) =
     (iataCode (arrival s) @ '' ('' @ layoverText (layoverMinutes E s s') @ '')'')
       # getLayovers E (s' # rest)"
| "getLayovers E _ = []"

text \<open>
  \<open>transformFlightOffer\<close>. Reading a property of \<open>undefined\<close> throws a \<open>TypeError\<close>:
  \<open>offer.itineraries[0]\<close> is \<open>undefined\<close> when there is no itinerary, and
  \<open>segments[0]\<close> when the first itinerary has no segment. With no segment the first
  property read of \<open>firstSegment\<close> is its carrier code (when the first validating code
  is missing or empty) or else its departure; both throw.
\<close>

definition transformFlightOffer ::
  "runtime \<Rightarrow> FlightOffer \<Rightarrow> (string \<rightharpoonup> string) option
     \<Rightarrow> js_error + js_value FlightCardData_of" where
  "transformFlightOffer E offer carrierDictionary =
     (case itineraries offer of
        [] \<Rightarrow> Inl TypeError
      | itinerary # _ \<Rightarrow>
          (case itin_segments itinerary of
             [] \<Rightarrow> Inl TypeError
           | firstSegment # _ \<Rightarrow>
               (let lastSegment = last (itin_segments itinerary);
                    primaryCarrier =
                      (case truthy (case validatingAirlineCodes offer of
                                      [] \<Rightarrow> None | c # _ \<Rightarrow> Some c) of
                         Some c \<Rightarrow> c
                       | None \<Rightarrow> carrierCode firstSegment)
                in case format_time E (parseISO E (at_iso (departure firstSegment))) of
                     Inl e \<Rightarrow> Inl e
                   | Inr dep \<Rightarrow>
                       (case format_time E (parseISO E (at_iso (arrival lastSegment))) of
                          Inl e \<Rightarrow> Inl e
                        | Inr arr \<Rightarrow>
                            Inr \<lparr> flight_id = offer_id offer,
                                  airline = getAirlineName primaryCarrier carrierDictionary,
                                  airlineLogo = AIRLINE_LOGO_URL primaryCarrier,
                                  departureTime = dep,
                                  arrivalTime = arr,
                                  departureAirport = iataCode (departure firstSegment),
                                  arrivalAirport = iataCode (arrival lastSegment),
                                  duration = parseDuration (itin_duration itinerary),
                                  stops = calculateStops (itin_segments itinerary),
                                  price = parseFloat E (grandTotal (offer_price offer)),
                                  currency = price_currency (offer_price offer),
                                  segments =
                                    map (\<lambda>segment. with_carrierName segment
                                           (getAirlineName (carrierCode segment) carrierDictionary))
                                      (itin_segments itinerary),
                                  layovers = Some (getLayovers E (itin_segments itinerary)) \<rparr>))))"

text \<open>
  \<open>Array.prototype.map\<close> with a callback that may throw: the elements are visited in
  order and the first exception leaves the whole call.
\<close>

fun map_throw :: "('a \<Rightarrow> js_error + 'b) \<Rightarrow> 'a list \<Rightarrow> js_error + 'b list" where
  "map_throw f [] = Inr []"
| "map_throw f (x # xs) =
     (case f x of
        Inl e \<Rightarrow> Inl e
      | Inr y \<Rightarrow> (case map_throw f xs of Inl e \<Rightarrow> Inl e | Inr ys \<Rightarrow> Inr (y # ys)))"

definition transformFlightOffers ::
  "runtime \<Rightarrow> AmadeusFlightOffersResponse \<Rightarrow> js_error + js_value FlightCardData_of list" where
  "transformFlightOffers E response =
     (let carrierDictionary = carriers response
      in map_throw (\<lambda>offer. transformFlightOffer E offer carrierDictionary) (data response))"

section \<open>Filters, chart points and the derived view (lib/flightTransformers.ts)\<close>

record PriceRange =
  range_min :: real
  range_max :: real

datatype SortKey = Price | Duration | Departure | Arrival

record FlightFilters =
  priceRange :: PriceRange
  filter_stops :: "int list"
  filter_airlines :: "string list"
  sortBy :: SortKey

record PriceDataPoint =
  pt_time :: string
  pt_price :: real
  pt_flightId :: string
  pt_stops :: int
  pt_airline :: string

definition generatePriceChartData :: "FlightCardData list \<Rightarrow> PriceDataPoint list" where
  "generatePriceChartData flights =
     map (\<lambda>flight. \<lparr> pt_time = departureTime flight, pt_price = price flight,
                      pt_flightId = flight_id flight, pt_stops = stops flight,
                      pt_airline = airline flight \<rparr>) flights"

text \<open>
  \<open>Array.from(new Set(xs))\<close>: the distinct elements, each at its first occurrence.
  \<open>.sort()\<close> with no comparator orders strings by their code units.
\<close>

definition Array_from_Set :: "string list \<Rightarrow> string list" where
  "Array_from_Set xs = rev (remdups (rev xs))"

definition extractUniqueAirlines :: "FlightCardData list \<Rightarrow> string list" where
  "extractUniqueAirlines flights = sort (Array_from_Set (map airline flights))"

definition extractPriceRange :: "FlightCardData list \<Rightarrow> PriceRange" where
  "extractPriceRange flights =
     (case map price flights of
        [] \<Rightarrow> \<lparr> range_min = 0, range_max = 1000 \<rparr>
      | p # ps \<Rightarrow> \<lparr> range_min = of_int \<lfloor>fold min ps p\<rfloor>,
                   range_max = of_int \<lceil>fold max ps p\<rceil> \<rparr>)"

text \<open>
  \<open>Array.prototype.sort(cmp)\<close> is stable, and every comparator below orders by a key,
  so the sorted array is the one a stable insertion sort gives: an element goes before
  the first element that \<open>cmp\<close> does not put before it.
\<close>

fun insert_cmp :: "('a \<Rightarrow> 'a \<Rightarrow> real) \<Rightarrow> 'a \<Rightarrow> 'a list \<Rightarrow> 'a list" where
  "insert_cmp cmp x [] = [x]"
| "insert_cmp cmp x (y # ys) =
     (if cmp x y \<le> 0 then x # y # ys else y # insert_cmp cmp x ys)"

definition Array_sort :: "('a \<Rightarrow> 'a \<Rightarrow> real) \<Rightarrow> 'a list \<Rightarrow> 'a list" where
  "Array_sort cmp xs = foldr (insert_cmp cmp) xs []"

text \<open>
  \<open>a.localeCompare(b)\<close> on the \<open>HH:mm\<close> labels: digits and a colon, which every
  collation orders as their code units do.
\<close>

definition localeCompare :: "string \<Rightarrow> string \<Rightarrow> real" where
  "localeCompare a b = (if a < b then - 1 else if a = b then 0 else 1)"

text \<open>The comparator of each case of the \<open>switch\<close> in \<open>sortFlights\<close>.\<close>

fun comparator :: "SortKey \<Rightarrow> FlightCardData \<Rightarrow> FlightCardData \<Rightarrow> real" where
  "comparator Price a b = price a - price b"
| "comparator Duration a b =
     real (parseDurationToMinutes (duration a)) - real (parseDurationToMinutes (duration b))"
| "comparator Departure a b = localeCompare (departureTime a) (departureTime b)"
| "comparator Arrival a b = localeCompare (arrivalTime a) (arrivalTime b)"

definition sortFlights :: "FlightCardData list \<Rightarrow> SortKey \<Rightarrow> FlightCardData list" where
  "sortFlights flights key = (let sorted = flights in Array_sort (comparator key) sorted)"

definition matchesStops :: "FlightFilters \<Rightarrow> FlightCardData \<Rightarrow> bool" where
  "matchesStops f flight =
     list_ex (\<lambda>stopCount. if stopCount = 2 then stops flight \<ge> 2
                           else stops flight = stopCount) (filter_stops f)"

definition keeps :: "FlightFilters \<Rightarrow> FlightCardData \<Rightarrow> bool" where
  "keeps f flight =
     (if price flight < range_min (priceRange f) \<or> price flight > range_max (priceRange f)
      then False
      else if length (filter_stops f) > 0 \<and> \<not> matchesStops f flight then False
      else if length (filter_airlines f) > 0
              \<and> airline flight \<notin> set (filter_airlines f) then False
      else True)"

definition filterFlights :: "FlightCardData list \<Rightarrow> FlightFilters \<Rightarrow> FlightCardData list" where
  "filterFlights flights f = filter (keeps f) flights"

section \<open>The flight store (store/flightStore.ts)\<close>

text \<open>
  The state is polymorphic in how it holds its two arrays of flights: by value
  (\<open>FlightCardData list\<close>) in the functional model, by reference in the model with a
  store of arrays further down.
\<close>

record 'arr FlightState =
  allFlights :: 'arr
  isLoading :: bool
  error :: "string option"
  filters :: FlightFilters
  filteredFlights :: 'arr
  chartData :: "PriceDataPoint list"
  availableAirlines :: "string list"
  absolutePriceRange :: PriceRange

definition DEFAULT_FILTERS :: FlightFilters where
  "DEFAULT_FILTERS =
     \<lparr> priceRange = \<lparr> range_min = 0, range_max = 10000 \<rparr>,
       filter_stops = [], filter_airlines = [], sortBy = Price \<rparr>"

definition applyFiltersAndSort ::
  "FlightCardData list \<Rightarrow> FlightFilters \<Rightarrow> FlightCardData list" where
  "applyFiltersAndSort flights f =
     (let result = filterFlights flights f in sortFlights result (sortBy f))"

definition initial_state :: "FlightCardData list FlightState" where
  "initial_state =
     \<lparr> allFlights = [], isLoading = False, error = None, filters = DEFAULT_FILTERS,
       filteredFlights = [], chartData = [], availableAirlines = [],
       absolutePriceRange = \<lparr> range_min = 0, range_max = 10000 \<rparr> \<rparr>"

definition setFlights ::
  "FlightCardData list \<Rightarrow> FlightCardData list FlightState \<Rightarrow> FlightCardData list FlightState" where
  "setFlights flights s =
     (let range = extractPriceRange flights;
          airlines = extractUniqueAirlines flights;
          newFilters = DEFAULT_FILTERS\<lparr> priceRange := range \<rparr>;
          filtered = applyFiltersAndSort flights newFilters;
          points = generatePriceChartData filtered
      in s\<lparr> allFlights := flights, filteredFlights := filtered, chartData := points,
             availableAirlines := airlines, absolutePriceRange := range,
             filters := newFilters, isLoading := False, error := None \<rparr>)"

definition setLoading :: "bool \<Rightarrow> 'arr FlightState \<Rightarrow> 'arr FlightState" where
  "setLoading loading s = s\<lparr> isLoading := loading \<rparr>"

definition setError :: "string option \<Rightarrow> 'arr FlightState \<Rightarrow> 'arr FlightState" where
  "setError e s = s\<lparr> error := e, isLoading := False \<rparr>"

text \<open>
  \<open>Partial<FlightFilters>\<close>: each field present (\<open>Some\<close>) or not mentioned (\<open>None\<close>).
  \<open>merge_filters\<close> is the spread \<open>{ ...state.filters, ...partialFilters }\<close>.
\<close>

record PartialFilters =
  p_priceRange :: "PriceRange option"
  p_stops :: "int list option"
  p_airlines :: "string list option"
  p_sortBy :: "SortKey option"

definition merge_filters :: "FlightFilters \<Rightarrow> PartialFilters \<Rightarrow> FlightFilters" where
  "merge_filters f p =
     \<lparr> priceRange = (case p_priceRange p of None \<Rightarrow> priceRange f | Some r \<Rightarrow> r),
       filter_stops = (case p_stops p of None \<Rightarrow> filter_stops f | Some x \<Rightarrow> x),
       filter_airlines = (case p_airlines p of None \<Rightarrow> filter_airlines f | Some x \<Rightarrow> x),
       sortBy = (case p_sortBy p of None \<Rightarrow> sortBy f | Some k \<Rightarrow> k) \<rparr>"

definition updateFilters ::
  "PartialFilters \<Rightarrow> FlightCardData list FlightState \<Rightarrow> FlightCardData list FlightState" where
  "updateFilters partialFilters s =
     (let newFilters = merge_filters (filters s) partialFilters;
          filtered = applyFiltersAndSort (allFlights s) newFilters;
          points = generatePriceChartData filtered
      in s\<lparr> filters := newFilters, filteredFlights := filtered, chartData := points \<rparr>)"

definition resetFilters ::
  "FlightCardData list FlightState \<Rightarrow> FlightCardData list FlightState" where
  "resetFilters s =
     (let newFilters = DEFAULT_FILTERS\<lparr> priceRange := absolutePriceRange s \<rparr>;
          filtered = applyFiltersAndSort (allFlights s) newFilters;
          points = generatePriceChartData filtered
      in s\<lparr> filters := newFilters, filteredFlights := filtered, chartData := points \<rparr>)"

definition clearSearch ::
  "FlightCardData list FlightState \<Rightarrow> FlightCardData list FlightState" where
  "clearSearch s =
     s\<lparr> allFlights := [], filteredFlights := [], chartData := [], availableAirlines := [],
        absolutePriceRange := \<lparr> range_min = 0, range_max = 10000 \<rparr>,
        filters := DEFAULT_FILTERS, isLoading := False, error := None \<rparr>"

section \<open>The same derivation over a store of arrays\<close>

text \<open>
  Arrays are objects: \<open>sort\<close> reorders the array it is called on, and two variables
  may hold the same array. Here a store is the list of the arrays allocated so far and
  a reference is an index into it. \<open>[...flights]\<close> and \<open>Array.prototype.filter\<close>
  allocate; \<open>Array.prototype.sort\<close> writes into the array it is given and returns
  that same reference.
\<close>

type_synonym ref = nat
type_synonym store = "FlightCardData list list"

definition alloc :: "store \<Rightarrow> FlightCardData list \<Rightarrow> ref \<times> store" where
  "alloc h xs = (length h, h @ [xs])"

definition Array_sort_ref ::
  "store \<Rightarrow> ref \<Rightarrow> (FlightCardData \<Rightarrow> FlightCardData \<Rightarrow> real) \<Rightarrow> ref \<times> store" where
  "Array_sort_ref h r cmp = (r, h[r := Array_sort cmp (h ! r)])"

definition sortFlights_ref :: "store \<Rightarrow> ref \<Rightarrow> SortKey \<Rightarrow> ref \<times> store" where
  "sortFlights_ref h flights key =
     (let (sorted, h1) = alloc h (h ! flights) in Array_sort_ref h1 sorted (comparator key))"

definition filterFlights_ref :: "store \<Rightarrow> ref \<Rightarrow> FlightFilters \<Rightarrow> ref \<times> store" where
  "filterFlights_ref h flights f = alloc h (filter (keeps f) (h ! flights))"

definition applyFiltersAndSort_ref :: "store \<Rightarrow> ref \<Rightarrow> FlightFilters \<Rightarrow> ref \<times> store" where
  "applyFiltersAndSort_ref h flights f =
     (let (result, h1) = filterFlights_ref h flights f in sortFlights_ref h1 result (sortBy f))"

definition updateFilters_ref ::
  "PartialFilters \<Rightarrow> store \<times> ref FlightState \<Rightarrow> store \<times> ref FlightState" where
  "updateFilters_ref partialFilters hs =
     (let (h, s) = hs;
          newFilters = merge_filters (filters s) partialFilters;
          (filtered, h1) = applyFiltersAndSort_ref h (allFlights s) newFilters;
          points = generatePriceChartData (h1 ! filtered)
      in (h1, s\<lparr> filters := newFilters, filteredFlights := filtered, chartData := points \<rparr>))"

definition resetFilters_ref :: "store \<times> ref FlightState \<Rightarrow> store \<times> ref FlightState" where
  "resetFilters_ref hs =
     (let (h, s) = hs;
          newFilters = DEFAULT_FILTERS\<lparr> priceRange := absolutePriceRange s \<rparr>;
          (filtered, h1) = applyFiltersAndSort_ref h (allFlights s) newFilters;
          points = generatePriceChartData (h1 ! filtered)
      in (h1, s\<lparr> filters := newFilters, filteredFlights := filtered, chartData := points \<rparr>))"

text \<open>What a state with references holds, read through the store.\<close>

definition deref :: "store \<Rightarrow> ref FlightState \<Rightarrow> FlightCardData list FlightState" where
  "deref h s =
     \<lparr> allFlights = h ! allFlights s, isLoading = isLoading s, error = error s,
       filters = filters s, filteredFlights = h ! filteredFlights s,
       chartData = chartData s, availableAirlines = availableAirlines s,
       absolutePriceRange = absolutePriceRange s \<rparr>"

section \<open>Concrete inputs\<close>

text \<open>
  A runtime for the examples: a table of ISO timestamps with their time values, the
  time of day in UTC, and a table for \<open>parseFloat\<close>.
\<close>

definition example_pad2 :: "int \<Rightarrow> string" where
  "example_pad2 n = (if n < 10 then ''0'' @ show_int n else show_int n)"

definition example_runtime :: runtime where
  "example_runtime =
     \<lparr> parseISO = map_of
         [(''2024-03-01T08:00:00'', 1709280000000), (''2024-03-01T09:30:00'', 1709285400000),
          (''2024-03-01T10:00:00'', 1709287200000), (''2024-03-01T11:30:00'', 1709292600000),
          (''2024-03-01T13:15:00'', 1709298900000), (''2024-03-01T14:00:00'', 1709301600000),
          (''2024-03-01T17:20:00'', 1709313600000)],
       format_HHmm = (\<lambda>t. example_pad2 ((t div 3600000) mod 24) @ '':''
                            @ example_pad2 ((t div 60000) mod 60)),
       parseFloat = (\<lambda>s. case map_of [(''350.50'', 701 / 2)] s of Some x \<Rightarrow> x | None \<Rightarrow> 0) \<rparr>"

definition example_segment :: "string \<Rightarrow> string \<Rightarrow> string \<Rightarrow> string \<Rightarrow> FlightSegment" where
  "example_segment a d b t =
     \<lparr> seg_id = ''1'',
       departure = \<lparr> iataCode = a, terminal = None, at_iso = d \<rparr>,
       arrival = \<lparr> iataCode = b, terminal = None, at_iso = t \<rparr>,
       carrierCode = ''AA'', carrierName = '''', seg_number = ''100'',
       aircraft_code = ''738'', seg_duration = ''PT2H'', numberOfStops = 0 \<rparr>"

definition example_segments :: "FlightSegment list" where
  "example_segments =
     [example_segment ''JFK'' ''2024-03-01T08:00:00'' ''ORD'' ''2024-03-01T10:00:00'',
      example_segment ''ORD'' ''2024-03-01T11:30:00'' ''DEN'' ''2024-03-01T13:15:00'',
      example_segment ''DEN'' ''2024-03-01T14:00:00'' ''LAX'' ''2024-03-01T17:20:00'']"

definition example_offer :: FlightOffer where
  "example_offer =
     \<lparr> offer_id = ''1'',
       itineraries = [\<lparr> itin_segments = example_segments, itin_duration = ''PT9H20M'' \<rparr>],
       offer_price = \<lparr> price_currency = ''USD'', grandTotal = ''350.50'' \<rparr>,
       validatingAirlineCodes = [''AA''] \<rparr>"

definition example_flight :: "string \<Rightarrow> string \<Rightarrow> real \<Rightarrow> int \<Rightarrow> string \<Rightarrow> FlightCardData" where
  "example_flight i a p n d =
     \<lparr> flight_id = i, airline = a, airlineLogo = AIRLINE_LOGO_URL ''AA'', departureTime = d,
       arrivalTime = ''23:00'', departureAirport = ''JFK'', arrivalAirport = ''LAX'',
       duration = ''5h 30m'', stops = n, price = p, currency = ''USD'', segments = [],
       layovers = Some [] \<rparr>"

definition example_flights :: "FlightCardData list" where
  "example_flights =
     [example_flight ''a'' ''Delta'' (501 / 2) 0 ''10:00'',
      example_flight ''b'' ''Air France'' (401 / 4) 1 ''09:00'',
      example_flight ''c'' ''Delta'' 900 3 ''08:00'']"

definition example_filters :: FlightFilters where
  "example_filters =
     \<lparr> priceRange = \<lparr> range_min = 200, range_max = 1000 \<rparr>,
       filter_stops = [2], filter_airlines = [''Delta''], sortBy = Price \<rparr>"

definition example_partial :: PartialFilters where
  "example_partial =
     \<lparr> p_priceRange = Some \<lparr> range_min = 200, range_max = 1000 \<rparr>,
       p_stops = None, p_airlines = None, p_sortBy = None \<rparr>"

definition example_store :: store where
  "example_store = [example_flights]"

definition example_state_ref :: "ref FlightState" where
  "example_state_ref =
     \<lparr> allFlights = 0, isLoading = False, error = None, filters = DEFAULT_FILTERS,
       filteredFlights = 0, chartData = [], availableAirlines = [''Air France'', ''Delta''],
       absolutePriceRange = \<lparr> range_min = 100, range_max = 900 \<rparr> \<rparr>"

section \<open>The normalizer on malformed offers and on batches\<close>

lemma map_throw_all_Inr:
  "\<forall>x \<in> set xs. \<exists>y. f x = Inr y \<Longrightarrow> map_throw f xs = Inr (map (\<lambda>x. projr (f x)) xs)"
  by (induction xs) auto

lemma map_throw_some_Inl:
  "\<exists>x \<in> set xs. \<exists>e. f x = Inl e \<Longrightarrow> \<exists>e. map_throw f xs = Inl e"
proof (induction xs)
  case Nil
  then show ?case by simp
next
  case (Cons x xs)
  show ?case
  proof (cases "f x")
    case (Inl e)
    then show ?thesis by simp
  next
    case (Inr y)
    with Cons.prems have "\<exists>x \<in> set xs. \<exists>e. f x = Inl e" by auto
    then obtain e where "map_throw f xs = Inl e" using Cons.IH by blast
    with Inr show ?thesis by simp
  qed
qed

lemma transformFlightOffer_malformed:
  "itineraries offer = [] \<or> itin_segments (hd (itineraries offer)) = []
   \<Longrightarrow> transformFlightOffer E offer dict = Inl TypeError"
  by (auto simp: transformFlightOffer_def split: list.splits)

lemma example_offer_card:
  "transformFlightOffer example_runtime example_offer None =
     Inr \<lparr> flight_id = ''1'', airline = Str ''American Airlines'',
           airlineLogo = ''https://images.kiwi.com/airlines/64/AA.png'',
           departureTime = ''08:00'', arrivalTime = ''17:20'',
           departureAirport = ''JFK'', arrivalAirport = ''LAX'',
           duration = ''9h 20m'', stops = 2, price = 701 / 2, currency = ''USD'',
           segments = map (\<lambda>s. with_carrierName s (Str ''American Airlines'')) example_segments,
           layovers = Some [''ORD (1h 30m)'', ''DEN (45m)''] \<rparr>"
  by code_simp

text \<open>
  C1, as the code has it. An offer with no itinerary, or whose first itinerary has no
  segment, makes \<open>transformFlightOffer\<close> throw a \<open>TypeError\<close>: no record is produced,
  and the error is the runtime's, not a \<open>MalformedOfferError\<close>. \<open>transformFlightOffers\<close>
  catches nothing: it returns the normalized flights of all the offers, in order, when
  every offer normalizes, and fails as a whole as soon as one offer fails. No offer is
  dropped and nothing is counted.
\<close>

theorem transformFlightOffers_all_or_nothing:
  "(itineraries offer = [] \<or> itin_segments (hd (itineraries offer)) = []
      \<longrightarrow> transformFlightOffer E offer dict = Inl TypeError)
   \<and> ((\<forall>x \<in> set (data response). \<exists>card. transformFlightOffer E x (carriers response) = Inr card)
      \<longrightarrow> transformFlightOffers E response
          = Inr (map (\<lambda>x. projr (transformFlightOffer E x (carriers response))) (data response)))
   \<and> ((\<exists>x \<in> set (data response). \<exists>e. transformFlightOffer E x (carriers response) = Inl e)
      \<longrightarrow> (\<exists>e. transformFlightOffers E response = Inl e))"
  using transformFlightOffer_malformed[of offer E dict]
    map_throw_all_Inr[of "data response" "\<lambda>x. transformFlightOffer E x (carriers response)"]
    map_throw_some_Inl[of "data response" "\<lambda>x. transformFlightOffer E x (carriers response)"]
  by (simp add: transformFlightOffers_def Let_def)

text \<open>
  The theorem at concrete batches: an offer without itineraries throws, a batch of two
  well-formed offers gives two flights, and a batch that holds the malformed offer
  fails.
\<close>

theorem transformFlightOffers_all_or_nothing_witness:
  "transformFlightOffer example_runtime (example_offer\<lparr> itineraries := [] \<rparr>) None = Inl TypeError
   \<and> map_sum id (map flight_id)
        (transformFlightOffers example_runtime
           \<lparr> data = [example_offer, example_offer], carriers = None \<rparr>) = Inr [''1'', ''1'']
   \<and> isl (transformFlightOffers example_runtime
        \<lparr> data = [example_offer\<lparr> itineraries := [] \<rparr>, example_offer], carriers = None \<rparr>)"
proof -
  have bad: "transformFlightOffer example_runtime (example_offer\<lparr> itineraries := [] \<rparr>) None
      = Inl TypeError"
    using transformFlightOffers_all_or_nothing
      [of "example_offer\<lparr> itineraries := [] \<rparr>" example_runtime None]
    by simp
  have good: "transformFlightOffers example_runtime
           \<lparr> data = [example_offer, example_offer], carriers = None \<rparr>
      = Inr (map (\<lambda>x. projr (transformFlightOffer example_runtime x None))
               [example_offer, example_offer])"
    using transformFlightOffers_all_or_nothing
      [of _ example_runtime _ "\<lparr> data = [example_offer, example_offer], carriers = None \<rparr>"]
    by (simp add: example_offer_card)
  have mixed: "\<exists>e. transformFlightOffers example_runtime
        \<lparr> data = [example_offer\<lparr> itineraries := [] \<rparr>, example_offer], carriers = None \<rparr> = Inl e"
    using transformFlightOffers_all_or_nothing
      [of _ example_runtime _
         "\<lparr> data = [example_offer\<lparr> itineraries := [] \<rparr>, example_offer], carriers = None \<rparr>"]
      bad
    by simp
  from bad good mixed show ?thesis
    by (auto simp: example_offer_card)
qed

text \<open>
  A batch of a well-formed offer followed by a malformed one: the well-formed offer
  normalizes on its own, and the batch returns no flight at all.
\<close>

theorem transformFlightOffers_drops_nothing:
  "map_sum id flight_id (transformFlightOffer example_runtime example_offer None) = Inr ''1''
   \<and> transformFlightOffers example_runtime
        \<lparr> data = [example_offer, example_offer\<lparr> itineraries := [] \<rparr>], carriers = None \<rparr>
       = Inl TypeError"
  by (simp add: transformFlightOffers_def example_offer_card transformFlightOffer_malformed)

section \<open>Layovers\<close>

lemma show_int_consts:
  "show_int 0 = ''0''" "show_int 1 = ''1''" "show_int 30 = ''30''" "show_int 45 = ''45''"
  by code_simp+

lemma layoverText_90: "layoverText (Some 90) = ''1h 30m''"
  by (simp add: layoverText_def js_rem_def show_int_consts)

lemma layoverText_45: "layoverText (Some 45) = ''45m''"
  by (simp add: layoverText_def js_rem_def show_int_consts)

lemma example_gaps:
  "layoverMinutes example_runtime
     (example_segment ''JFK'' ''2024-03-01T08:00:00'' ''ORD'' ''2024-03-01T10:00:00'')
     (example_segment ''ORD'' ''2024-03-01T11:30:00'' ''DEN'' ''2024-03-01T13:15:00'') = Some 90"
  "layoverMinutes example_runtime
     (example_segment ''ORD'' ''2024-03-01T11:30:00'' ''DEN'' ''2024-03-01T13:15:00'')
     (example_segment ''DEN'' ''2024-03-01T14:00:00'' ''LAX'' ''2024-03-01T17:20:00'') = Some 45"
  "layoverMinutes example_runtime
     (example_segment ''JFK'' ''2024-03-01T08:00:00'' ''ORD'' ''2024-03-01T10:00:00'')
     (example_segment ''ORD'' ''2024-03-01T10:00:00'' ''DEN'' ''2024-03-01T13:15:00'') = Some 0"
  by (simp_all add: layoverMinutes_def example_runtime_def example_segment_def
      differenceInMinutes_def)

text \<open>
  C5, as the code has it. When the first itinerary of an offer has three segments and
  the minute differences between them are 90 and 45, \<open>calculateStops\<close> gives 2 and
  \<open>getLayovers\<close> gives \<open>["<airport1> (1h 30m)", "<airport2> (45m)"]\<close>: a layover of
  less than an hour is rendered with its minutes only, with no \<open>0h\<close> in front. Every
  record \<open>transformFlightOffer\<close> returns for the offer carries these two values, and it
  returns one whenever the first departure and the last arrival are valid dates.
\<close>

theorem three_segments_layovers:
  assumes "itineraries offer = itin # others"
    and "itin_segments itin = [s1, s2, s3]"
    and "layoverMinutes E s1 s2 = Some 90"
    and "layoverMinutes E s2 s3 = Some 45"
  shows "calculateStops (itin_segments itin) = 2
    \<and> getLayovers E (itin_segments itin)
        = [iataCode (arrival s1) @ '' (1h 30m)'', iataCode (arrival s2) @ '' (45m)'']
    \<and> (\<forall>card. transformFlightOffer E offer dict = Inr card \<longrightarrow>
          stops card = 2
          \<and> layovers card
              = Some [iataCode (arrival s1) @ '' (1h 30m)'', iataCode (arrival s2) @ '' (45m)''])
    \<and> (parseISO E (at_iso (departure s1)) \<noteq> None \<and> parseISO E (at_iso (arrival s3)) \<noteq> None
         \<longrightarrow> (\<exists>card. transformFlightOffer E offer dict = Inr card))"
proof -
  have st: "calculateStops (itin_segments itin) = 2"
    using assms(2) by (simp add: calculateStops_def)
  have lay: "getLayovers E (itin_segments itin)
        = [iataCode (arrival s1) @ '' (1h 30m)'', iataCode (arrival s2) @ '' (45m)'']"
    using assms(2,3,4) by (simp add: layoverText_90 layoverText_45)
  have tr: "stops card = 2 \<and> layovers card
              = Some [iataCode (arrival s1) @ '' (1h 30m)'', iataCode (arrival s2) @ '' (45m)'']"
    if "transformFlightOffer E offer dict = Inr card" for card
  proof -
    from that assms(1,2)
    have "stops card = calculateStops (itin_segments itin)
        \<and> layovers card = Some (getLayovers E (itin_segments itin))"
      by (auto simp: transformFlightOffer_def Let_def split: sum.splits)
    with st lay show ?thesis by simp
  qed
  have ex: "\<exists>card. transformFlightOffer E offer dict = Inr card"
    if "parseISO E (at_iso (departure s1)) \<noteq> None \<and> parseISO E (at_iso (arrival s3)) \<noteq> None"
    using that assms(1,2)
    by (auto simp: transformFlightOffer_def Let_def format_time_def split: sum.splits option.splits)
  from st lay tr ex show ?thesis by blast
qed

text \<open>The theorem at the example offer, whose layovers last 90 and 45 minutes.\<close>

theorem three_segments_layovers_witness:
  "calculateStops example_segments = 2
   \<and> getLayovers example_runtime example_segments = [''ORD (1h 30m)'', ''DEN (45m)'']
   \<and> isl (transformFlightOffer example_runtime example_offer (Some [''AA'' \<mapsto> ''American Air''])) = False"
proof -
  have o: "itineraries example_offer
      = \<lparr> itin_segments = example_segments, itin_duration = ''PT9H20M'' \<rparr> # []"
    by (simp add: example_offer_def)
  have s: "itin_segments \<lparr> itin_segments = example_segments, itin_duration = ''PT9H20M'' \<rparr>
      = [example_segment ''JFK'' ''2024-03-01T08:00:00'' ''ORD'' ''2024-03-01T10:00:00'',
         example_segment ''ORD'' ''2024-03-01T11:30:00'' ''DEN'' ''2024-03-01T13:15:00'',
         example_segment ''DEN'' ''2024-03-01T14:00:00'' ''LAX'' ''2024-03-01T17:20:00'']"
    by (simp add: example_segments_def)
  have v: "parseISO example_runtime ''2024-03-01T08:00:00'' \<noteq> None"
    "parseISO example_runtime ''2024-03-01T17:20:00'' \<noteq> None"
    by (simp_all add: example_runtime_def)
  show ?thesis
    using three_segments_layovers [OF o s example_gaps(1) example_gaps(2),
        of "Some [''AA'' \<mapsto> ''American Air'']"] v
    by (auto simp: example_segment_def)
qed

text \<open>
  The example offer has three segments with gaps of 90 and 45 minutes; its second
  layover is \<open>DEN (45m)\<close>, not \<open>DEN (0h 45m)\<close>.
\<close>

theorem three_segments_layovers_cex:
  "calculateStops example_segments = 2
   \<and> layoverMinutes example_runtime (example_segments ! 0) (example_segments ! 1) = Some 90
   \<and> layoverMinutes example_runtime (example_segments ! 1) (example_segments ! 2) = Some 45
   \<and> map_sum id layovers (transformFlightOffer example_runtime example_offer None)
       = Inr (Some [''ORD (1h 30m)'', ''DEN (45m)''])
   \<and> map_sum id layovers (transformFlightOffer example_runtime example_offer None)
       \<noteq> Inr (Some [''ORD (1h 30m)'', ''DEN (0h 45m)''])"
  by (simp add: example_offer_card example_segments_def example_gaps calculateStops_def)

lemma js_rem_nonpositive:
  assumes "g \<le> 0"
  shows "- 60 < js_rem g 60 \<and> js_rem g 60 \<le> 0 \<and> js_rem g 60 = - ((- g) mod 60)"
proof (cases "g = 0")
  case True
  then show ?thesis by (simp add: js_rem_def)
next
  case False
  with assms have neg: "g < 0" by simp
  then have "js_rem g 60 = - ((- g) mod 60)"
    by (simp add: js_rem_def)
  moreover have "0 \<le> (- g) mod 60 \<and> (- g) mod 60 < 60"
    by simp
  ultimately show ?thesis by linarith
qed

lemma layoverText_nonpositive:
  assumes "g \<le> 0"
  shows "layoverText (Some g) = show_int (js_rem g 60) @ ''m''"
proof -
  from assms have "g div 60 \<le> 0"
    using zdiv_mono1 [of g 0 60] by simp
  then show ?thesis
    by (simp add: layoverText_def Let_def)
qed

lemma show_int_negative: "i < 0 \<Longrightarrow> hd (show_int i) = CHR ''-''"
  by (simp add: show_int_def)

lemma length_getLayovers: "length (getLayovers E segs) = length segs - 1"
  by (induction E segs rule: getLayovers.induct) auto

text \<open>
  C6, as the code has it. For an adjacent pair of segments whose gap \<open>g\<close> (the minute
  difference) is zero or negative, \<open>getLayovers\<close> does not raise: it is a total
  function and returns one label for each adjacent pair. The label has the
  minutes-only shape \<open>"{airport} ({r}m)"\<close> where \<open>r = g % 60\<close> is the remainder with
  the sign of \<open>g\<close>: it is \<open>0\<close> when \<open>g\<close> is a multiple of 60 (zero included) and a
  negative number, written with its minus sign, otherwise. Nothing is clamped.
\<close>

theorem getLayovers_nonpositive_gap:
  assumes "layoverMinutes E s s' = Some g" and "g \<le> 0"
  shows "getLayovers E (s # s' # others)
           = (iataCode (arrival s) @ '' ('' @ show_int (js_rem g 60) @ ''m)'')
               # getLayovers E (s' # others)
    \<and> - 60 < js_rem g 60 \<and> js_rem g 60 \<le> 0
    \<and> (60 dvd g \<longrightarrow> show_int (js_rem g 60) = ''0'')
    \<and> (\<not> 60 dvd g \<longrightarrow> js_rem g 60 < 0 \<and> hd (show_int (js_rem g 60)) = CHR ''-'')
    \<and> length (getLayovers E (s # s' # others)) = Suc (length others)"
proof -
  have lab: "getLayovers E (s # s' # others)
           = (iataCode (arrival s) @ '' ('' @ show_int (js_rem g 60) @ ''m)'')
               # getLayovers E (s' # others)"
    using assms by (simp add: layoverText_nonpositive)
  have rng: "- 60 < js_rem g 60 \<and> js_rem g 60 \<le> 0 \<and> js_rem g 60 = - ((- g) mod 60)"
    using assms(2) by (rule js_rem_nonpositive)
  have z: "show_int (js_rem g 60) = ''0''" if "60 dvd g"
  proof -
    from that have "(- g) mod 60 = 0" by simp
    with rng have "js_rem g 60 = 0" by simp
    then show ?thesis by (simp add: show_int_consts)
  qed
  have n: "js_rem g 60 < 0 \<and> hd (show_int (js_rem g 60)) = CHR ''-''" if "\<not> 60 dvd g"
  proof -
    from that have "(- g) mod 60 \<noteq> 0" by (simp add: dvd_eq_mod_eq_0 [symmetric])
    with rng have "js_rem g 60 < 0" by simp
    then show ?thesis by (simp add: show_int_negative)
  qed
  have len: "length (getLayovers E (s # s' # others)) = Suc (length others)"
    by (simp add: length_getLayovers)
  from lab rng z n len show ?thesis by blast
qed

text \<open>The theorem at a gap of zero: the next flight leaves the minute the first lands.\<close>

theorem getLayovers_nonpositive_gap_witness:
  "getLayovers example_runtime
     [example_segment ''JFK'' ''2024-03-01T08:00:00'' ''ORD'' ''2024-03-01T10:00:00'',
      example_segment ''ORD'' ''2024-03-01T10:00:00'' ''DEN'' ''2024-03-01T13:15:00'']
     = [''ORD (0m)'']"
  using getLayovers_nonpositive_gap [OF example_gaps(3), of "[]"]
  by (simp add: example_segment_def)

text \<open>
  A next departure half an hour before the arrival: the gap is \<open>-30\<close> and the label
  shows \<open>-30m\<close>.
\<close>

theorem getLayovers_negative_label:
  "layoverMinutes example_runtime
       (example_segment ''JFK'' ''2024-03-01T08:00:00'' ''ORD'' ''2024-03-01T10:00:00'')
       (example_segment ''ORD'' ''2024-03-01T09:30:00'' ''DEN'' ''2024-03-01T13:15:00'') = Some (- 30)
   \<and> getLayovers example_runtime
       [example_segment ''JFK'' ''2024-03-01T08:00:00'' ''ORD'' ''2024-03-01T10:00:00'',
        example_segment ''ORD'' ''2024-03-01T09:30:00'' ''DEN'' ''2024-03-01T13:15:00'']
     = [''ORD (-30m)'']"
proof -
  have m: "layoverMinutes example_runtime
       (example_segment ''JFK'' ''2024-03-01T08:00:00'' ''ORD'' ''2024-03-01T10:00:00'')
       (example_segment ''ORD'' ''2024-03-01T09:30:00'' ''DEN'' ''2024-03-01T13:15:00'') = Some (- 30)"
    by (simp add: layoverMinutes_def example_runtime_def example_segment_def differenceInMinutes_def)
  have s: "show_int (- 30) = ''-30''" by code_simp
  have t: "layoverText (Some (- 30)) = ''-30m''"
    by (simp add: layoverText_nonpositive js_rem_def s)
  show ?thesis
    using m t by (simp add: example_segment_def)
qed

section \<open>Airline names\<close>

lemma AIRLINE_NAMES_nonempty: "AIRLINE_NAMES code = Some name \<Longrightarrow> name \<noteq> []"
  by (auto simp: AIRLINE_NAMES_def split: if_splits)

lemma AIRLINE_NAMES_not_inherited:
  "AIRLINE_NAMES code = Some name \<Longrightarrow> code \<notin> set Object_prototype_members"
  by (auto simp: AIRLINE_NAMES_def Object_prototype_members_def split: if_splits)

lemma get_property_own: "obj key = Some v \<Longrightarrow> get_property obj key = Str v"
  by (simp add: get_property_def)

lemma get_property_absent:
  "obj key = None \<Longrightarrow> key \<notin> set Object_prototype_members \<Longrightarrow> get_property obj key = Undefined"
  by (simp add: get_property_def)

lemma get_property_inherited:
  "obj key = None \<Longrightarrow> key \<in> set Object_prototype_members \<Longrightarrow> get_property obj key = Member key"
  by (simp add: get_property_def)

text \<open>
  What the lookup gives for a code that names an inherited member and has no
  non-empty entry of its own in the dictionary: the inherited member, found in the
  dictionary or else in the static table, and not the code.
\<close>

lemma getAirlineName_inherited_member:
  assumes "code \<in> set Object_prototype_members"
    and "dict = None \<or> (\<exists>d. dict = Some d \<and> (d code = None \<or> d code = Some []))"
  shows "getAirlineName code dict = Member code"
proof -
  have t: "AIRLINE_NAMES code = None"
    using assms(1) AIRLINE_NAMES_not_inherited [of code] by (cases "AIRLINE_NAMES code") auto
  then have "get_property AIRLINE_NAMES code = Member code"
    using assms(1) by (rule get_property_inherited)
  with assms show ?thesis
    by (auto simp: getAirlineName_def Let_def get_property_def)
qed

text \<open>
  C9, as the code has it. The name of a carrier code is read from the per-search
  dictionary first, then from the static table \<open>AIRLINE_NAMES\<close>, and is otherwise the
  code itself. The steps are joined by \<open>||\<close>, so an entry counts only when it is not
  the empty string. For every code: a non-empty dictionary entry is the resolved name,
  even when the static table has the code too; and with no dictionary, no entry or an
  empty entry, the static name is the result when the table has one. For every code
  that is not the name of a member inherited from \<open>Object.prototype\<close>: when neither
  the dictionary nor the table has a non-empty entry, the result is the code itself.
  With the dictionary \<open>{"AA": "American Air"}\<close> the name of \<open>AA\<close> is \<open>American Air\<close>,
  though the static table has \<open>American Airlines\<close> for it.
\<close>

theorem getAirlineName_precedence:
  "(\<forall>d name. dict = Some d \<and> d code = Some name \<and> name \<noteq> []
        \<longrightarrow> getAirlineName code dict = Str name)
   \<and> (\<forall>name. (dict = None \<or> (\<exists>d. dict = Some d \<and> (d code = None \<or> d code = Some [])))
          \<and> AIRLINE_NAMES code = Some name \<longrightarrow> getAirlineName code dict = Str name)
   \<and> ((dict = None \<or> (\<exists>d. dict = Some d \<and> (d code = None \<or> d code = Some [])))
          \<and> AIRLINE_NAMES code = None \<and> code \<notin> set Object_prototype_members
        \<longrightarrow> getAirlineName code dict = Str code)
   \<and> AIRLINE_NAMES ''AA'' = Some ''American Airlines''
   \<and> getAirlineName ''AA'' (Some [''AA'' \<mapsto> ''American Air'']) = Str ''American Air''"
proof -
  have a: "AIRLINE_NAMES ''AA'' = Some ''American Airlines''"
    by (simp add: AIRLINE_NAMES_def)
  have b: "getAirlineName ''AA'' (Some [''AA'' \<mapsto> ''American Air'']) = Str ''American Air''"
    by (simp add: getAirlineName_def get_property_def)
  have c: "dict = Some d \<and> d code = Some name \<and> name \<noteq> []
      \<longrightarrow> getAirlineName code dict = Str name" for d name
    by (simp add: getAirlineName_def get_property_def)
  have d: "(dict = None \<or> (\<exists>d. dict = Some d \<and> (d code = None \<or> d code = Some [])))
          \<and> AIRLINE_NAMES code = Some name \<longrightarrow> getAirlineName code dict = Str name" for name
  proof
    assume h: "(dict = None \<or> (\<exists>d. dict = Some d \<and> (d code = None \<or> d code = Some [])))
          \<and> AIRLINE_NAMES code = Some name"
    then have own: "get_property AIRLINE_NAMES code = Str name" and ne: "name \<noteq> []"
      and ni: "code \<notin> set Object_prototype_members"
      using get_property_own [of AIRLINE_NAMES code name] AIRLINE_NAMES_nonempty [of code name]
        AIRLINE_NAMES_not_inherited [of code name]
      by simp_all
    from h have "\<not> truthy_value (case dict of None \<Rightarrow> Undefined | Some d \<Rightarrow> get_property d code)"
      using ni by (auto simp: get_property_def)
    with own ne show "getAirlineName code dict = Str name"
      by (simp add: getAirlineName_def Let_def)
  qed
  have e: "(dict = None \<or> (\<exists>d. dict = Some d \<and> (d code = None \<or> d code = Some [])))
          \<and> AIRLINE_NAMES code = None \<and> code \<notin> set Object_prototype_members
        \<longrightarrow> getAirlineName code dict = Str code"
    by (auto simp: getAirlineName_def Let_def get_property_def)
  from a b c d e show ?thesis by blast
qed

text \<open>The three steps of the lookup at concrete codes.\<close>

theorem getAirlineName_precedence_witness:
  "getAirlineName ''DL'' (Some [''DL'' \<mapsto> ''Delta'']) = Str ''Delta''
   \<and> getAirlineName ''DL'' None = Str ''Delta Air Lines''
   \<and> getAirlineName ''ZZ'' (Some [''DL'' \<mapsto> ''Delta'']) = Str ''ZZ''"
proof -
  have s: "AIRLINE_NAMES ''DL'' = Some ''Delta Air Lines''" "AIRLINE_NAMES ''ZZ'' = None"
    by (simp_all add: AIRLINE_NAMES_def)
  have z: "''ZZ'' \<notin> set Object_prototype_members"
    by (simp add: Object_prototype_members_def)
  show ?thesis
    using getAirlineName_precedence [of "Some [''DL'' \<mapsto> ''Delta'']" "''DL''"]
      getAirlineName_precedence [of None "''DL''"]
      getAirlineName_precedence [of "Some [''DL'' \<mapsto> ''Delta'']" "''ZZ''"] s z
    by simp
qed

text \<open>
  A dictionary whose entry for \<open>AA\<close> is the empty string: the dictionary contains an
  entry for the code, and the resolved name is the static one. And a code that is in
  neither the dictionary nor the static table, yet is not returned verbatim: for
  \<open>constructor\<close> the result is the inherited member of that name.
\<close>

theorem getAirlineName_empty_entry:
  "[''AA'' \<mapsto> ''''] ''AA'' = Some ''''
   \<and> getAirlineName ''AA'' (Some [''AA'' \<mapsto> '''']) = Str ''American Airlines''
   \<and> AIRLINE_NAMES ''constructor'' = None
   \<and> getAirlineName ''constructor'' None = Member ''constructor''
   \<and> getAirlineName ''constructor'' None \<noteq> Str ''constructor''"
  by (simp add: getAirlineName_def get_property_def AIRLINE_NAMES_def
      Object_prototype_members_def)

section \<open>Duration labels read back\<close>

lemma digit_cases: "d < 10 \<Longrightarrow> d \<in> {0, 1, 2, 3, 4, 5, 6, 7, 8, 9::nat}"
  by auto

lemma is_digit_char_of_digit: "d < 10 \<Longrightarrow> is_digit (char_of_digit d)"
  using digit_cases [of d] by (auto simp: is_digit_def char_of_digit_def)

lemma digit_of_char_of_digit: "d < 10 \<Longrightarrow> digit_of_char (char_of_digit d) = d"
  using digit_cases [of d] by (auto simp: digit_of_char_def char_of_digit_def)

lemma show_nat_digits: "list_all is_digit (show_nat n) \<and> show_nat n \<noteq> []"
proof (induction n rule: show_nat.induct)
  case (1 n)
  show ?case
  proof (cases "n < 10")
    case True
    then show ?thesis
      by (simp add: show_nat.simps [of n] is_digit_char_of_digit)
  next
    case False
    with 1 show ?thesis
      by (simp add: show_nat.simps [of n] is_digit_char_of_digit)
  qed
qed

lemma parseInt_snoc: "parseInt (ds @ [c]) = 10 * parseInt ds + digit_of_char c"
  by (simp add: parseInt_def)

lemma parseInt_show_nat: "parseInt (show_nat n) = n"
proof (induction n rule: show_nat.induct)
  case (1 n)
  show ?case
  proof (cases "n < 10")
    case True
    then show ?thesis
      by (simp add: show_nat.simps [of n] parseInt_def digit_of_char_of_digit)
  next
    case False
    with 1 have "parseInt (show_nat (n div 10)) = n div 10" by simp
    with False show ?thesis
      by (simp add: show_nat.simps [of n] parseInt_snoc digit_of_char_of_digit)
  qed
qed

lemma not_digit_letters:
  "\<not> is_digit CHR ''h''" "\<not> is_digit CHR ''m''" "\<not> is_digit CHR '' ''"
  by (simp_all add: is_digit_def)

lemma digit_not_space: "is_digit c \<Longrightarrow> \<not> is_space c"
  by (auto simp: is_digit_def is_space_def)

lemma takeWhile_digits:
  "list_all is_digit ds \<Longrightarrow> \<not> is_digit x \<Longrightarrow> takeWhile is_digit (ds @ x # r) = ds"
  by (induction ds) auto

lemma dropWhile_digits:
  "list_all is_digit ds \<Longrightarrow> \<not> is_digit x \<Longrightarrow> dropWhile is_digit (ds @ x # r) = x # r"
  by (induction ds) auto

lemma find_hours_digits_h:
  assumes "list_all is_digit ds" and "ds \<noteq> []"
  shows "find_hours (ds @ CHR ''h'' # r) = Some (ds, r)"
proof -
  from assms obtain c cs where ds: "ds = c # cs" by (cases ds) auto
  with assms(1) have c: "is_digit c" by simp
  have d: "dropWhile is_digit ((c # cs) @ CHR ''h'' # r) = CHR ''h'' # r"
    using assms(1) ds by (intro dropWhile_digits) (simp_all add: not_digit_letters)
  have t: "takeWhile is_digit ((c # cs) @ CHR ''h'' # r) = c # cs"
    using assms(1) ds by (intro takeWhile_digits) (simp_all add: not_digit_letters)
  have "find_hours (c # (cs @ CHR ''h'' # r)) = Some (c # cs, r)"
    using c d t by (simp del: dropWhile.simps takeWhile.simps)
  with ds show ?thesis by simp
qed

lemma find_hours_digits_m:
  "list_all is_digit ds \<Longrightarrow> find_hours (ds @ ''m'') = None"
proof (induction ds)
  case Nil
  then show ?case by (simp add: not_digit_letters)
next
  case (Cons c cs)
  then have c: "is_digit c" and cs: "list_all is_digit cs" by simp_all
  have d: "dropWhile is_digit ((c # cs) @ CHR ''m'' # []) = ''m''"
    using Cons.prems by (intro dropWhile_digits) (simp_all add: not_digit_letters)
  have "find_hours (c # (cs @ ''m'')) = find_hours (cs @ ''m'')"
    using c d by (simp del: dropWhile.simps)
  with Cons.IH cs show ?case by simp
qed

lemma parseDurationToMinutes_hours_minutes:
  "parseDurationToMinutes (show_nat h @ ''h '' @ show_nat m @ ''m'') = h * 60 + m"
proof -
  have f: "find_hours (show_nat h @ CHR ''h'' # ('' '' @ show_nat m @ ''m''))
      = Some (show_nat h, '' '' @ show_nat m @ ''m'')"
    using show_nat_digits [of h] by (intro find_hours_digits_h) simp_all
  obtain c cs where m: "show_nat m = c # cs" and c: "is_digit c"
    using show_nat_digits [of m] by (cases "show_nat m") auto
  have s1: "is_space CHR '' ''" by (simp add: is_space_def)
  have s2: "\<not> is_space c" using c by (rule digit_not_space)
  have sp: "dropWhile is_space ('' '' @ show_nat m @ ''m'') = show_nat m @ ''m''"
    using m s1 s2 by simp
  have tk: "takeWhile is_digit (show_nat m @ CHR ''m'' # []) = show_nat m"
    using show_nat_digits [of m] by (intro takeWhile_digits) (simp_all add: not_digit_letters)
  show ?thesis
    using f sp tk show_nat_digits [of m]
    by (simp add: parseDurationToMinutes_def Let_def parseInt_show_nat)
qed

lemma parseDurationToMinutes_hours_only:
  "parseDurationToMinutes (show_nat h @ ''h'') = h * 60"
proof -
  have f: "find_hours (show_nat h @ CHR ''h'' # []) = Some (show_nat h, [])"
    using show_nat_digits [of h] by (intro find_hours_digits_h) simp_all
  show ?thesis
    using f by (simp add: parseDurationToMinutes_def Let_def parseInt_show_nat)
qed

lemma parseDurationToMinutes_minutes_only:
  "parseDurationToMinutes (show_nat m @ ''m'') = 0"
  using show_nat_digits [of m]
  by (simp add: parseDurationToMinutes_def find_hours_digits_m)

lemma duration_examples:
  "parseDuration ''PT45M'' = ''45m''"
  "parseDurationToMinutes ''45m'' = 0"
  "parseDurationToMinutes (parseDuration ''PT2H30M'') = 150"
  "parseDurationToMinutes ''no duration'' = 0"
  by code_simp+

text \<open>
  C7 on the code. \<open>parseDurationToMinutes\<close> reads the labels \<open>"{h}h {m}m"\<close> and
  \<open>"{h}h"\<close> back as \<open>h * 60 + m\<close> and \<open>h * 60\<close> minutes, and the rendered form of
  \<open>PT2H30M\<close> as 150. Its regular expression asks for the hours, though: a
  minutes-only label \<open>"{m}m"\<close> does not match and is read as 0 minutes, whatever
  \<open>m\<close> is. So \<open>PT45M\<close>, rendered as \<open>45m\<close>, counts as 0 minutes and not as 45. A
  string in which no digits are followed by an \<open>h\<close> is read as 0 as well.
\<close>

theorem parseDurationToMinutes_shapes:
  "parseDurationToMinutes (show_nat h @ ''h '' @ show_nat m @ ''m'') = h * 60 + m
   \<and> parseDurationToMinutes (show_nat h @ ''h'') = h * 60
   \<and> parseDurationToMinutes (show_nat m @ ''m'') = 0
   \<and> parseDuration ''PT45M'' = ''45m''
   \<and> parseDurationToMinutes ''45m'' = 0
   \<and> parseDurationToMinutes (parseDuration ''PT2H30M'') = 150
   \<and> parseDurationToMinutes ''no duration'' = 0"
  by (simp only: parseDurationToMinutes_hours_minutes parseDurationToMinutes_hours_only
      parseDurationToMinutes_minutes_only duration_examples simp_thms)

text \<open>The theorem at two hours and a half, and at three quarters of an hour.\<close>

theorem parseDurationToMinutes_shapes_witness:
  "parseDurationToMinutes (show_nat 2 @ ''h '' @ show_nat 30 @ ''m'') = 150
   \<and> parseDurationToMinutes (show_nat 45 @ ''m'') = 0"
  using parseDurationToMinutes_shapes [of 2 30] parseDurationToMinutes_shapes [of 0 45]
  by simp

section \<open>The view engine\<close>

lemma fold_min_Min: "fold min ps (p::real) = Min (set (p # ps))"
  by (simp only: Min.set_eq_fold)

lemma fold_max_Max: "fold max ps (p::real) = Max (set (p # ps))"
  by (simp only: Max.set_eq_fold)

lemma extractPriceRange_bounds:
  "extractPriceRange flights =
     (if flights = [] then \<lparr> range_min = 0, range_max = 1000 \<rparr>
      else \<lparr> range_min = of_int \<lfloor>Min (price ` set flights)\<rfloor>,
             range_max = of_int \<lceil>Max (price ` set flights)\<rceil> \<rparr>)"
proof (cases flights)
  case Nil
  then show ?thesis by (simp add: extractPriceRange_def)
next
  case (Cons x xs)
  then show ?thesis
    by (simp add: extractPriceRange_def fold_min_Min fold_max_Max)
qed

lemma applyFiltersAndSort_Nil: "applyFiltersAndSort [] f = []"
  by (simp add: applyFiltersAndSort_def filterFlights_def sortFlights_def Array_sort_def)

text \<open>
  C2. For every list of flights, \<open>setFlights\<close> stores the list as the working set and
  sets the bounds to the floor of the least price and the ceiling of the greatest
  price of the list, or to 0 and 1000 when the list is empty. The filter becomes the
  default filter (no stops, no airlines, sorted by price) with the new bounds as its
  price range. For the empty list the bounds are 0 and 1000, the current view is
  empty and so is the list of available airlines.
\<close>

theorem setFlights_bounds:
  "absolutePriceRange (setFlights flights s) =
     (if flights = [] then \<lparr> range_min = 0, range_max = 1000 \<rparr>
      else \<lparr> range_min = of_int \<lfloor>Min (price ` set flights)\<rfloor>,
             range_max = of_int \<lceil>Max (price ` set flights)\<rceil> \<rparr>)
   \<and> filters (setFlights flights s)
       = DEFAULT_FILTERS\<lparr> priceRange := absolutePriceRange (setFlights flights s) \<rparr>
   \<and> filters (setFlights flights s)
       = \<lparr> priceRange = absolutePriceRange (setFlights flights s),
           filter_stops = [], filter_airlines = [], sortBy = Price \<rparr>
   \<and> allFlights (setFlights flights s) = flights
   \<and> absolutePriceRange (setFlights [] s) = \<lparr> range_min = 0, range_max = 1000 \<rparr>
   \<and> filteredFlights (setFlights [] s) = []
   \<and> availableAirlines (setFlights [] s) = []"
  using extractPriceRange_bounds [of flights]
  by (simp add: setFlights_def Let_def DEFAULT_FILTERS_def applyFiltersAndSort_Nil
      extractPriceRange_def extractUniqueAirlines_def Array_from_Set_def)

text \<open>The theorem at three flights priced 250.50, 100.25 and 900.\<close>

theorem setFlights_bounds_witness:
  "absolutePriceRange (setFlights example_flights initial_state)
     = \<lparr> range_min = 100, range_max = 900 \<rparr>
   \<and> priceRange (filters (setFlights example_flights initial_state))
     = \<lparr> range_min = 100, range_max = 900 \<rparr>
   \<and> sortBy (filters (setFlights example_flights initial_state)) = Price"
proof -
  have ne: "example_flights \<noteq> []" by (simp add: example_flights_def)
  have img: "price ` set example_flights = {501 / 2, 401 / 4, 900}"
    by (simp add: example_flights_def example_flight_def)
  have mn: "Min (price ` set example_flights) = 401 / 4"
    by (simp add: img)
  have mx: "Max (price ` set example_flights) = 900"
    by (simp add: img)
  have fl: "\<lfloor>401 / 4 :: real\<rfloor> = 100" by simp
  show ?thesis
    using setFlights_bounds [of example_flights initial_state] ne
    by (simp add: mn mx fl DEFAULT_FILTERS_def)
qed

text \<open>
  C3. A flight is in the result of \<open>filterFlights\<close> exactly when it is in the input
  list, its price lies in the inclusive range from \<open>priceRange.min\<close> to
  \<open>priceRange.max\<close>, the list of selected stop buckets is empty or some selected
  bucket matches (bucket 2 matches two or more stops, any other bucket \<open>n\<close> matches
  exactly \<open>n\<close> stops), and the list of selected airlines is empty or holds the flight's
  airline name.
\<close>

theorem filterFlights_membership:
  "flight \<in> set (filterFlights flights f) \<longleftrightarrow>
     flight \<in> set flights
     \<and> range_min (priceRange f) \<le> price flight \<and> price flight \<le> range_max (priceRange f)
     \<and> (filter_stops f = []
        \<or> (\<exists>n \<in> set (filter_stops f). if n = 2 then stops flight \<ge> 2 else stops flight = n))
     \<and> (filter_airlines f = [] \<or> airline flight \<in> set (filter_airlines f))"
  by (auto simp: filterFlights_def keeps_def matchesStops_def list_ex_iff not_less)

text \<open>
  The theorem at a filter for 200 to 1000, two or more stops, airline Delta: the flight
  with three stops at 900 is kept, the non-stop flight at 250.50 is not.
\<close>

theorem filterFlights_membership_witness:
  "example_flight ''c'' ''Delta'' 900 3 ''08:00''
     \<in> set (filterFlights example_flights example_filters)
   \<and> example_flight ''a'' ''Delta'' (501 / 2) 0 ''10:00''
     \<notin> set (filterFlights example_flights example_filters)"
  using filterFlights_membership
      [of "example_flight ''c'' ''Delta'' 900 3 ''08:00''" example_flights example_filters]
    filterFlights_membership
      [of "example_flight ''a'' ''Delta'' (501 / 2) 0 ''10:00''" example_flights example_filters]
  by (simp add: example_flights_def example_filters_def example_flight_def)

lemma updateFilters_fold_frame:
  "allFlights (fold updateFilters ps s) = allFlights s
   \<and> absolutePriceRange (fold updateFilters ps s) = absolutePriceRange s
   \<and> availableAirlines (fold updateFilters ps s) = availableAirlines s"
proof (induction ps arbitrary: s)
  case Nil
  show ?case by simp
next
  case (Cons p ps)
  have "allFlights (updateFilters p s) = allFlights s
    \<and> absolutePriceRange (updateFilters p s) = absolutePriceRange s
    \<and> availableAirlines (updateFilters p s) = availableAirlines s"
    by (simp add: updateFilters_def Let_def)
  with Cons.IH [of "updateFilters p s"] show ?case by simp
qed

text \<open>
  C4. \<open>updateFilters\<close> merges the partial filter into the current one: a field the
  partial filter does not mention keeps its value, a field it mentions takes the new
  value. The current view is recomputed from the working set with the merged filter
  and the chart series from the current view. The working set, the bounds and the
  list of available airlines are unchanged, and so are the loading flag and the error;
  they are still unchanged after any sequence of such calls.
\<close>

theorem updateFilters_frame:
  "filters (updateFilters p s) = merge_filters (filters s) p
   \<and> (p_priceRange p = None \<longrightarrow> priceRange (filters (updateFilters p s)) = priceRange (filters s))
   \<and> (p_stops p = None \<longrightarrow> filter_stops (filters (updateFilters p s)) = filter_stops (filters s))
   \<and> (p_airlines p = None \<longrightarrow>
        filter_airlines (filters (updateFilters p s)) = filter_airlines (filters s))
   \<and> (p_sortBy p = None \<longrightarrow> sortBy (filters (updateFilters p s)) = sortBy (filters s))
   \<and> (\<forall>r. p_priceRange p = Some r \<longrightarrow> priceRange (filters (updateFilters p s)) = r)
   \<and> (\<forall>x. p_stops p = Some x \<longrightarrow> filter_stops (filters (updateFilters p s)) = x)
   \<and> (\<forall>x. p_airlines p = Some x \<longrightarrow> filter_airlines (filters (updateFilters p s)) = x)
   \<and> (\<forall>k. p_sortBy p = Some k \<longrightarrow> sortBy (filters (updateFilters p s)) = k)
   \<and> filteredFlights (updateFilters p s)
       = applyFiltersAndSort (allFlights s) (filters (updateFilters p s))
   \<and> chartData (updateFilters p s) = generatePriceChartData (filteredFlights (updateFilters p s))
   \<and> allFlights (updateFilters p s) = allFlights s
   \<and> absolutePriceRange (updateFilters p s) = absolutePriceRange s
   \<and> availableAirlines (updateFilters p s) = availableAirlines s
   \<and> isLoading (updateFilters p s) = isLoading s
   \<and> error (updateFilters p s) = error s
   \<and> allFlights (fold updateFilters ps s) = allFlights s
   \<and> absolutePriceRange (fold updateFilters ps s) = absolutePriceRange s
   \<and> availableAirlines (fold updateFilters ps s) = availableAirlines s"
  using updateFilters_fold_frame [of ps s]
  by (simp add: updateFilters_def Let_def merge_filters_def)

text \<open>The theorem at a new price range, after three flights were ingested.\<close>

theorem updateFilters_frame_witness:
  "priceRange (filters (updateFilters example_partial (setFlights example_flights initial_state)))
     = \<lparr> range_min = 200, range_max = 1000 \<rparr>
   \<and> sortBy (filters (updateFilters example_partial (setFlights example_flights initial_state)))
     = Price
   \<and> allFlights (updateFilters example_partial (setFlights example_flights initial_state))
     = example_flights
   \<and> availableAirlines (updateFilters example_partial (setFlights example_flights initial_state))
     = availableAirlines (setFlights example_flights initial_state)
   \<and> absolutePriceRange (updateFilters example_partial (setFlights example_flights initial_state))
     = absolutePriceRange (setFlights example_flights initial_state)"
proof -
  have f: "filters (setFlights example_flights initial_state)
      = DEFAULT_FILTERS\<lparr> priceRange := extractPriceRange example_flights \<rparr>"
    by (simp add: setFlights_def Let_def)
  have a: "allFlights (setFlights example_flights initial_state) = example_flights"
    by (simp add: setFlights_def Let_def)
  show ?thesis
    using updateFilters_frame [of example_partial "setFlights example_flights initial_state"]
    by (simp add: example_partial_def f a DEFAULT_FILTERS_def merge_filters_def)
qed

text \<open>
  C8, as the code has it. In the empty state, that is in the initial state of the
  store and in the state after \<open>clearSearch\<close>, the working set and the current view are
  empty and the bounds are 0 and 10000.
\<close>

theorem empty_state:
  "absolutePriceRange initial_state = \<lparr> range_min = 0, range_max = 10000 \<rparr>
   \<and> filteredFlights initial_state = []
   \<and> allFlights initial_state = []
   \<and> absolutePriceRange (clearSearch s) = \<lparr> range_min = 0, range_max = 10000 \<rparr>
   \<and> filteredFlights (clearSearch s) = []
   \<and> allFlights (clearSearch s) = []"
  by (simp add: initial_state_def clearSearch_def)

text \<open>The theorem at the state that holds three flights.\<close>

theorem empty_state_witness:
  "absolutePriceRange (clearSearch (setFlights example_flights initial_state))
     = \<lparr> range_min = 0, range_max = 10000 \<rparr>
   \<and> filteredFlights (clearSearch (setFlights example_flights initial_state)) = []"
  using empty_state [of "setFlights example_flights initial_state"] by simp

text \<open>The bounds of the initial state are not 0 and 1000, and neither are those after a clear.\<close>

theorem empty_state_bounds_not_1000:
  "absolutePriceRange initial_state \<noteq> \<lparr> range_min = 0, range_max = 1000 \<rparr>
   \<and> absolutePriceRange (clearSearch initial_state) \<noteq> \<lparr> range_min = 0, range_max = 1000 \<rparr>"
  by (simp add: initial_state_def clearSearch_def)

section \<open>The working set under sorting\<close>

lemma sortFlights_ref_result:
  assumes "a < length h"
  shows "sortFlights_ref h a key = (length h, h @ [sortFlights (h ! a) key])"
  using assms
  by (simp add: sortFlights_ref_def alloc_def Array_sort_ref_def sortFlights_def Let_def
      nth_append list_update_append)

lemma filterFlights_ref_result:
  "filterFlights_ref h a f = (length h, h @ [filterFlights (h ! a) f])"
  by (simp add: filterFlights_ref_def alloc_def filterFlights_def)

lemma applyFiltersAndSort_ref_result:
  assumes "a < length h"
  shows "applyFiltersAndSort_ref h a f
     = (Suc (length h), h @ [filterFlights (h ! a) f, applyFiltersAndSort (h ! a) f])"
  using assms
  by (simp add: applyFiltersAndSort_ref_def filterFlights_ref_result sortFlights_ref_result
      applyFiltersAndSort_def Let_def nth_append)

lemma updateFilters_ref_result:
  assumes "allFlights s < length h"
  shows "updateFilters_ref p (h, s) =
     (h @ [filterFlights (h ! allFlights s) (merge_filters (filters s) p),
           applyFiltersAndSort (h ! allFlights s) (merge_filters (filters s) p)],
      s\<lparr> filters := merge_filters (filters s) p, filteredFlights := Suc (length h),
         chartData := generatePriceChartData
            (applyFiltersAndSort (h ! allFlights s) (merge_filters (filters s) p)) \<rparr>)"
  using assms
  by (simp add: updateFilters_ref_def applyFiltersAndSort_ref_result Let_def nth_append)

lemma resetFilters_ref_result:
  assumes "allFlights s < length h"
  shows "resetFilters_ref (h, s) =
     (h @ [filterFlights (h ! allFlights s)
             (DEFAULT_FILTERS\<lparr> priceRange := absolutePriceRange s \<rparr>),
           applyFiltersAndSort (h ! allFlights s)
             (DEFAULT_FILTERS\<lparr> priceRange := absolutePriceRange s \<rparr>)],
      s\<lparr> filters := DEFAULT_FILTERS\<lparr> priceRange := absolutePriceRange s \<rparr>,
         filteredFlights := Suc (length h),
         chartData := generatePriceChartData
            (applyFiltersAndSort (h ! allFlights s)
               (DEFAULT_FILTERS\<lparr> priceRange := absolutePriceRange s \<rparr>)) \<rparr>)"
  using assms
  by (simp add: resetFilters_ref_def applyFiltersAndSort_ref_result Let_def nth_append)

text \<open>
  C10. In a store \<open>h\<close> of arrays, \<open>sortFlights\<close> called on an allocated array returns a
  reference that was not allocated before the call, so it is not the reference it was
  given; every array allocated before the call, the input among them, holds after the
  call what it held before, elements and order; and the returned array holds the
  sorted flights. The same holds for the store across \<open>updateFilters\<close> and
  \<open>resetFilters\<close>: the state still refers to the same working set, every array
  allocated before the call is unchanged, and read through the store the new state is
  the one the functional model computes.
\<close>

theorem sortFlights_leaves_input:
  assumes "flights < length h" and "allFlights s < length h"
  shows "fst (sortFlights_ref h flights key) \<noteq> flights
    \<and> fst (sortFlights_ref h flights key) \<notin> {..<length h}
    \<and> (\<forall>r < length h. snd (sortFlights_ref h flights key) ! r = h ! r)
    \<and> snd (sortFlights_ref h flights key) ! fst (sortFlights_ref h flights key)
        = sortFlights (h ! flights) key
    \<and> allFlights (snd (updateFilters_ref p (h, s))) = allFlights s
    \<and> (\<forall>r < length h. fst (updateFilters_ref p (h, s)) ! r = h ! r)
    \<and> deref (fst (updateFilters_ref p (h, s))) (snd (updateFilters_ref p (h, s)))
        = updateFilters p (deref h s)
    \<and> allFlights (snd (resetFilters_ref (h, s))) = allFlights s
    \<and> (\<forall>r < length h. fst (resetFilters_ref (h, s)) ! r = h ! r)
    \<and> deref (fst (resetFilters_ref (h, s))) (snd (resetFilters_ref (h, s)))
        = resetFilters (deref h s)"
proof -
  have a: "fst (sortFlights_ref h flights key) \<noteq> flights
    \<and> fst (sortFlights_ref h flights key) \<notin> {..<length h}
    \<and> (\<forall>r < length h. snd (sortFlights_ref h flights key) ! r = h ! r)
    \<and> snd (sortFlights_ref h flights key) ! fst (sortFlights_ref h flights key)
        = sortFlights (h ! flights) key"
    using assms(1) by (simp add: sortFlights_ref_result nth_append)
  have b: "allFlights (snd (updateFilters_ref p (h, s))) = allFlights s
    \<and> (\<forall>r < length h. fst (updateFilters_ref p (h, s)) ! r = h ! r)
    \<and> deref (fst (updateFilters_ref p (h, s))) (snd (updateFilters_ref p (h, s)))
        = updateFilters p (deref h s)"
    using assms(2)
    by (simp add: updateFilters_ref_result nth_append deref_def updateFilters_def Let_def)
  have c: "allFlights (snd (resetFilters_ref (h, s))) = allFlights s
    \<and> (\<forall>r < length h. fst (resetFilters_ref (h, s)) ! r = h ! r)
    \<and> deref (fst (resetFilters_ref (h, s))) (snd (resetFilters_ref (h, s)))
        = resetFilters (deref h s)"
    using assms(2)
    by (simp add: resetFilters_ref_result nth_append deref_def resetFilters_def Let_def)
  from a b c show ?thesis by blast
qed

text \<open>
  The theorem at a store that holds one array of three flights, not in order of price:
  after sorting by price the array is as it was, and the sorted flights are in a new one.
\<close>

theorem sortFlights_leaves_input_witness:
  "fst (sortFlights_ref example_store 0 Price) \<noteq> 0
   \<and> snd (sortFlights_ref example_store 0 Price) ! 0 = example_flights
   \<and> map flight_id (snd (sortFlights_ref example_store 0 Price)
        ! fst (sortFlights_ref example_store 0 Price)) = [''b'', ''a'', ''c'']
   \<and> allFlights (snd (updateFilters_ref example_partial (example_store, example_state_ref))) = 0
   \<and> fst (updateFilters_ref example_partial (example_store, example_state_ref)) ! 0
       = example_flights
   \<and> fst (resetFilters_ref (example_store, example_state_ref)) ! 0 = example_flights"
proof -
  have h1: "0 < length example_store" by (simp add: example_store_def)
  have h2: "allFlights example_state_ref < length example_store"
    by (simp add: example_store_def example_state_ref_def)
  have h0: "example_store ! 0 = example_flights" by (simp add: example_store_def)
  have a0: "allFlights example_state_ref = 0" by (simp add: example_state_ref_def)
  have srt: "map flight_id (sortFlights example_flights Price) = [''b'', ''a'', ''c'']"
    by (simp add: sortFlights_def Array_sort_def example_flights_def example_flight_def)
  show ?thesis
    using sortFlights_leaves_input [OF h1 h2, of Price example_partial] h1 h0 a0 srt
    by simp
qed

end
